theory Spec2Isabelle
  imports Main "HOL-Library.Word"
begin

section \<open>winptables.c: driver entry and unload\<close>

text \<open>
  The embedding follows \<^verbatim>\<open>src/winptables/winptables.c\<close>. The driver's globals and
  the kernel objects it owns are one record that every routine takes and returns. The
  kernel routines the driver calls are not part of the repository: each is a state
  transformer whose outcome (the status it returns) is read from an environment, so that
  every theorem about \<open>DriverEntry\<close> holds for every behaviour of the kernel. Every
  call is also appended to \<open>calls\<close>, the trace of the invocation.
\<close>

subsection \<open>Status codes and constants of the Windows Driver Kit headers\<close>

type_synonym UINT = "32 word"
type_synonym NTSTATUS = "32 word"

definition STATUS_SUCCESS :: NTSTATUS where
  "STATUS_SUCCESS = 0"

text \<open>\<^verbatim>\<open>NT_SUCCESS(Status)\<close> is \<^verbatim>\<open>((NTSTATUS)(Status)) >= 0\<close>, with \<^verbatim>\<open>NTSTATUS\<close> a signed
  32-bit integer.\<close>

definition NT_SUCCESS :: "NTSTATUS \<Rightarrow> bool" where
  "NT_SUCCESS status = (0 \<le> sint status)"

text \<open>\<^verbatim>\<open>NDIS_RUNTIME_VERSION_620\<close> is \<^verbatim>\<open>((6 << 16) | 20)\<close>;
  \<^verbatim>\<open>NDIS_STATUS_UNSUPPORTED_REVISION\<close> is \<^verbatim>\<open>STATUS_NOT_SUPPORTED\<close>, \<^verbatim>\<open>0xC00000BB\<close>;
  \<^verbatim>\<open>DO_DIRECT_IO\<close> is \<^verbatim>\<open>0x00000010\<close>.\<close>

definition NDIS_RUNTIME_VERSION_620 :: UINT where
  "NDIS_RUNTIME_VERSION_620 = 0x00060014"

definition NDIS_STATUS_UNSUPPORTED_REVISION :: NTSTATUS where
  "NDIS_STATUS_UNSUPPORTED_REVISION = 0xC00000BB"

definition DO_DIRECT_IO :: "32 word" where
  "DO_DIRECT_IO = 0x00000010"

subsection \<open>Dispatch tables\<close>

text \<open>The subroutines of \<^verbatim>\<open>filter_subroutines.c\<close> and
  \<^verbatim>\<open>winptables_comm_device.c\<close> that \<open>DriverEntry\<close> installs, by name. Of
  \<^verbatim>\<open>NDIS_FILTER_DRIVER_CHARACTERISTICS\<close> the record keeps the seventeen handler slots
  that lines 117 to 136 assign; its header, version, flag and name fields are filled from
  macros of \<^verbatim>\<open>global.h\<close> and take no part in the control flow.\<close>

datatype filter_handler =
    WPTFilterSetOptions
  | WPTFilterSetModuleOptions
  | WPTFilterAttach
  | WPTFilterDetach
  | WPTFilterRestart
  | WPTFilterPause
  | WPTReceivedFromNIC
  | WPTSendToUpperFinished
  | WPTReceivedFromUpper
  | WPTSendToNICFinished

record filter_characteristics =
  SetOptionsHandler :: "filter_handler option"
  SetFilterModuleOptionsHandler :: "filter_handler option"
  AttachHandler :: "filter_handler option"
  DetachHandler :: "filter_handler option"
  RestartHandler :: "filter_handler option"
  PauseHandler :: "filter_handler option"
  ReceiveNetBufferListsHandler :: "filter_handler option"
  ReturnNetBufferListsHandler :: "filter_handler option"
  SendNetBufferListsHandler :: "filter_handler option"
  SendNetBufferListsCompleteHandler :: "filter_handler option"
  OidRequestHandler :: "filter_handler option"
  OidRequestCompleteHandler :: "filter_handler option"
  CancelOidRequestHandler :: "filter_handler option"
  DevicePnPEventNotifyHandler :: "filter_handler option"
  NetPnPEventHandler :: "filter_handler option"
  StatusHandler :: "filter_handler option"
  CancelSendNetBufferListsHandler :: "filter_handler option"

datatype irp_major =
    IRP_MJ_CREATE
  | IRP_MJ_CLOSE
  | IRP_MJ_CLEANUP
  | IRP_MJ_DEVICE_CONTROL
  | IRP_MJ_READ
  | IRP_MJ_WRITE

datatype irp_dispatch =
    WPTCommDeviceCreate
  | WPTCommDeviceClose
  | WPTCommDeviceClean
  | WPTCommDeviceIOCtl
  | WPTCommDeviceRead
  | WPTCommDeviceWrite

record driver_object =
  DriverUnloadSet :: bool
  MajorFunction :: "irp_major \<rightharpoonup> irp_dispatch"

record device_object =
  Flags :: "32 word"

subsection \<open>The driver's state and the kernel's answers\<close>

datatype kernel_call =
    Call_NdisGetVersion
  | Call_NdisAllocateSpinLock
  | Call_InitializeListHead
  | Call_NdisFRegisterFilterDriver filter_characteristics
  | Call_NdisFreeSpinLock
  | Call_NdisFDeregisterFilterDriver
  | Call_IoCreateDevice
  | Call_IoDeleteDevice
  | Call_IoCreateSymbolicLink
  | Call_IoDeleteSymbolicLink
  | Call_InitRingBuffer nat
  | Call_FreeRingBuffer

text \<open>
  The globals of \<^verbatim>\<open>winptables.c\<close>, with the kernel objects behind them:
  \<open>filterListLock\<close> holds while the spin lock is allocated, \<open>filterDriverHandle\<close> is
  the registration (\<open>None\<close> for \<^verbatim>\<open>NULL\<close>), \<open>winptablesCommunicationDevice\<close> the device
  object, \<open>symbolicLink\<close> holds while the link \<open>linkName\<close> exists, \<open>commRingBuffer\<close>
  is the size exponent the ring buffer was initialised with. The strings
  \<open>deviceName\<close> and \<open>linkName\<close> come from macros of \<^verbatim>\<open>global.h\<close> and are left out.
\<close>

record driver_state =
  ndisVersion :: UINT
  filterDriverHandle :: "filter_characteristics option"
  filterDriverObject :: bool
  filterListLock :: bool
  filterModuleList :: "nat list"
  commRingBuffer :: "nat option"
  winptablesCommunicationDevice :: "device_object option"
  symbolicLink :: bool
  driverObject :: driver_object
  calls :: "kernel_call list"

text \<open>What the kernel answers in one invocation: the version \<^verbatim>\<open>NdisGetVersion\<close> reports,
  the status of each call that can fail, and the flags of a freshly created device.\<close>

record os_env =
  env_NdisGetVersion :: UINT
  env_NdisFRegisterFilterDriver :: NTSTATUS
  env_IoCreateDevice :: NTSTATUS
  env_deviceFlags :: "32 word"
  env_IoCreateSymbolicLink :: NTSTATUS
  env_InitRingBuffer :: NTSTATUS

definition initial_state :: driver_state where
  "initial_state =
     \<lparr>ndisVersion = 0, filterDriverHandle = None, filterDriverObject = False,
      filterListLock = False, filterModuleList = [], commRingBuffer = None,
      winptablesCommunicationDevice = None, symbolicLink = False,
      driverObject = \<lparr>DriverUnloadSet = False, MajorFunction = Map.empty\<rparr>,
      calls = []\<rparr>"

definition called :: "kernel_call \<Rightarrow> driver_state \<Rightarrow> driver_state" where
  "called c s = s\<lparr>calls := calls s @ [c]\<rparr>"

subsection \<open>The kernel routines\<close>

text \<open>A routine that returns a status creates its object exactly when the status is a
  success in the sense of \<open>NT_SUCCESS\<close>, the test \<open>DriverEntry\<close> applies to it.\<close>

definition NdisGetVersion :: "os_env \<Rightarrow> driver_state \<Rightarrow> UINT \<times> driver_state" where
  "NdisGetVersion env s = (env_NdisGetVersion env, called Call_NdisGetVersion s)"

definition NdisAllocateSpinLock :: "driver_state \<Rightarrow> driver_state" where
  "NdisAllocateSpinLock s = called Call_NdisAllocateSpinLock (s\<lparr>filterListLock := True\<rparr>)"

definition NdisFreeSpinLock :: "driver_state \<Rightarrow> driver_state" where
  "NdisFreeSpinLock s = called Call_NdisFreeSpinLock (s\<lparr>filterListLock := False\<rparr>)"

definition InitializeListHead :: "driver_state \<Rightarrow> driver_state" where
  "InitializeListHead s = called Call_InitializeListHead (s\<lparr>filterModuleList := []\<rparr>)"

definition NdisFRegisterFilterDriver ::
  "os_env \<Rightarrow> filter_characteristics \<Rightarrow> driver_state \<Rightarrow> NTSTATUS \<times> driver_state" where
  "NdisFRegisterFilterDriver env fc s =
     (let status = env_NdisFRegisterFilterDriver env;
          s' = called (Call_NdisFRegisterFilterDriver fc) s
      in (status, if NT_SUCCESS status then s'\<lparr>filterDriverHandle := Some fc\<rparr> else s'))"

definition NdisFDeregisterFilterDriver :: "driver_state \<Rightarrow> driver_state" where
  "NdisFDeregisterFilterDriver s =
     called Call_NdisFDeregisterFilterDriver (s\<lparr>filterDriverHandle := None\<rparr>)"

definition IoCreateDevice :: "os_env \<Rightarrow> driver_state \<Rightarrow> NTSTATUS \<times> driver_state" where
  "IoCreateDevice env s =
     (let status = env_IoCreateDevice env;
          s' = called Call_IoCreateDevice s
      in (status,
          if NT_SUCCESS status
          then s'\<lparr>winptablesCommunicationDevice := Some \<lparr>Flags = env_deviceFlags env\<rparr>\<rparr>
          else s'))"

definition IoDeleteDevice :: "driver_state \<Rightarrow> driver_state" where
  "IoDeleteDevice s = called Call_IoDeleteDevice (s\<lparr>winptablesCommunicationDevice := None\<rparr>)"

definition IoCreateSymbolicLink :: "os_env \<Rightarrow> driver_state \<Rightarrow> NTSTATUS \<times> driver_state" where
  "IoCreateSymbolicLink env s =
     (let status = env_IoCreateSymbolicLink env;
          s' = called Call_IoCreateSymbolicLink s
      in (status, if NT_SUCCESS status then s'\<lparr>symbolicLink := True\<rparr> else s'))"

definition IoDeleteSymbolicLink :: "driver_state \<Rightarrow> driver_state" where
  "IoDeleteSymbolicLink s = called Call_IoDeleteSymbolicLink (s\<lparr>symbolicLink := False\<rparr>)"

text \<open>\<^verbatim>\<open>InitRingBuffer(&commRingBuffer, power)\<close> and \<^verbatim>\<open>FreeRingBuffer\<close> are declared in
  \<^verbatim>\<open>ring_buffer.h\<close>; what \<open>DriverEntry\<close> sees of them is the status and the exponent
  it passes.\<close>

definition InitRingBuffer :: "os_env \<Rightarrow> nat \<Rightarrow> driver_state \<Rightarrow> NTSTATUS \<times> driver_state" where
  "InitRingBuffer env exponent s =
     (let status = env_InitRingBuffer env;
          s' = called (Call_InitRingBuffer exponent) s
      in (status, if NT_SUCCESS status then s'\<lparr>commRingBuffer := Some exponent\<rparr> else s'))"

definition FreeRingBuffer :: "driver_state \<Rightarrow> driver_state" where
  "FreeRingBuffer s = called Call_FreeRingBuffer (s\<lparr>commRingBuffer := None\<rparr>)"

text \<open>The comment at the call site reads \<^verbatim>\<open>20 means 1<<20 Bytes = 1MB\<close>: the size
  argument is an exponent of two, in bytes.\<close>

definition ring_buffer_bytes :: "nat \<Rightarrow> nat" where
  "ring_buffer_bytes exponent = push_bit exponent 1"

subsection \<open>DriverUnload\<close>

definition DriverUnload :: "driver_state \<Rightarrow> driver_state" where
  "DriverUnload s = IoDeleteDevice (IoDeleteSymbolicLink (NdisFDeregisterFilterDriver s))"

subsection \<open>DriverEntry\<close>

text \<open>The characteristics as lines 117 to 136 fill them: ten handlers, seven \<^verbatim>\<open>NULL\<close>.\<close>

definition filterDriverCharacteristics :: filter_characteristics where
  "filterDriverCharacteristics =
     \<lparr>SetOptionsHandler = Some WPTFilterSetOptions,
      SetFilterModuleOptionsHandler = Some WPTFilterSetModuleOptions,
      AttachHandler = Some WPTFilterAttach,
      DetachHandler = Some WPTFilterDetach,
      RestartHandler = Some WPTFilterRestart,
      PauseHandler = Some WPTFilterPause,
      ReceiveNetBufferListsHandler = Some WPTReceivedFromNIC,
      ReturnNetBufferListsHandler = Some WPTSendToUpperFinished,
      SendNetBufferListsHandler = Some WPTReceivedFromUpper,
      SendNetBufferListsCompleteHandler = Some WPTSendToNICFinished,
      OidRequestHandler = None,
      OidRequestCompleteHandler = None,
      CancelOidRequestHandler = None,
      DevicePnPEventNotifyHandler = None,
      NetPnPEventHandler = None,
      StatusHandler = None,
      CancelSendNetBufferListsHandler = None\<rparr>"

definition set_DriverUnload :: "driver_state \<Rightarrow> driver_state" where
  "set_DriverUnload s = s\<lparr>driverObject := (driverObject s)\<lparr>DriverUnloadSet := True\<rparr>\<rparr>"

definition set_DO_DIRECT_IO :: "driver_state \<Rightarrow> driver_state" where
  "set_DO_DIRECT_IO s =
     s\<lparr>winptablesCommunicationDevice :=
         map_option (\<lambda>d. d\<lparr>Flags := or (Flags d) DO_DIRECT_IO\<rparr>)
           (winptablesCommunicationDevice s)\<rparr>"

definition set_MajorFunction :: "driver_state \<Rightarrow> driver_state" where
  "set_MajorFunction s =
     s\<lparr>driverObject := (driverObject s)\<lparr>MajorFunction :=
         (MajorFunction (driverObject s))
           (IRP_MJ_CREATE \<mapsto> WPTCommDeviceCreate,
            IRP_MJ_CLOSE \<mapsto> WPTCommDeviceClose,
            IRP_MJ_CLEANUP \<mapsto> WPTCommDeviceClean,
            IRP_MJ_DEVICE_CONTROL \<mapsto> WPTCommDeviceIOCtl,
            IRP_MJ_READ \<mapsto> WPTCommDeviceRead,
            IRP_MJ_WRITE \<mapsto> WPTCommDeviceWrite)\<rparr>\<rparr>"

text \<open>
  The body of the \<^verbatim>\<open>do { ... } while (FALSE)\<close>: each \<^verbatim>\<open>break\<close> is the branch that
  returns. The stages are split at the four calls whose status is tested.
\<close>

definition DriverEntry_ring :: "os_env \<Rightarrow> driver_state \<Rightarrow> NTSTATUS \<times> driver_state" where
  "DriverEntry_ring env s =
     (let s1 = set_MajorFunction s;
          (status, s2) = InitRingBuffer env 20 s1
      in if \<not> NT_SUCCESS status
         then (status,
               FreeRingBuffer (IoDeleteDevice (NdisFDeregisterFilterDriver (NdisFreeSpinLock s2))))
         else (status, s2))"

definition DriverEntry_link :: "os_env \<Rightarrow> driver_state \<Rightarrow> NTSTATUS \<times> driver_state" where
  "DriverEntry_link env s =
     (let s1 = set_DO_DIRECT_IO s;
          (status, s2) = IoCreateSymbolicLink env s1
      in if \<not> NT_SUCCESS status
         then (status, IoDeleteDevice (NdisFDeregisterFilterDriver (NdisFreeSpinLock s2)))
         else DriverEntry_ring env s2)"

definition DriverEntry_device :: "os_env \<Rightarrow> driver_state \<Rightarrow> NTSTATUS \<times> driver_state" where
  "DriverEntry_device env s =
     (let s1 = set_DriverUnload s;
          (status, s2) = IoCreateDevice env s1
      in if \<not> NT_SUCCESS status
         then (status, NdisFDeregisterFilterDriver (NdisFreeSpinLock s2))
         else DriverEntry_link env s2)"

definition DriverEntry :: "os_env \<Rightarrow> driver_state \<Rightarrow> NTSTATUS \<times> driver_state" where
  "DriverEntry env s =
     (let (v, s1) = NdisGetVersion env s;
          s2 = s1\<lparr>ndisVersion := v\<rparr>
      in if ndisVersion s2 < NDIS_RUNTIME_VERSION_620
         then (NDIS_STATUS_UNSUPPORTED_REVISION, s2)
         else
           (let s3 = s2\<lparr>ndisVersion := NDIS_RUNTIME_VERSION_620, filterDriverObject := True\<rparr>;
                s4 = InitializeListHead (NdisAllocateSpinLock s3);
                (status, s5) = NdisFRegisterFilterDriver env filterDriverCharacteristics s4
            in if \<not> NT_SUCCESS status
               then (status, NdisFreeSpinLock s5)
               else DriverEntry_device env s5))"

subsection \<open>Concrete kernels\<close>

text \<open>Three behaviours of the kernel used to run \<open>DriverEntry\<close>: NDIS 6.1 (older than
  6.20); NDIS 6.30 with every call succeeding; and NDIS 6.30 where only the ring buffer
  cannot be allocated (\<^verbatim>\<open>STATUS_INSUFFICIENT_RESOURCES\<close>, \<^verbatim>\<open>0xC000009A\<close>).\<close>

definition env_ndis_610 :: os_env where
  "env_ndis_610 =
     \<lparr>env_NdisGetVersion = 0x00060001, env_NdisFRegisterFilterDriver = 0,
      env_IoCreateDevice = 0, env_deviceFlags = 0x80, env_IoCreateSymbolicLink = 0,
      env_InitRingBuffer = 0\<rparr>"

definition env_all_ok :: os_env where
  "env_all_ok =
     \<lparr>env_NdisGetVersion = 0x0006001E, env_NdisFRegisterFilterDriver = 0,
      env_IoCreateDevice = 0, env_deviceFlags = 0x80, env_IoCreateSymbolicLink = 0,
      env_InitRingBuffer = 0\<rparr>"

definition env_ring_fail :: os_env where
  "env_ring_fail =
     \<lparr>env_NdisGetVersion = 0x0006001E, env_NdisFRegisterFilterDriver = 0,
      env_IoCreateDevice = 0, env_deviceFlags = 0x80, env_IoCreateSymbolicLink = 0,
      env_InitRingBuffer = 0xC000009A\<rparr>"

section \<open>Rule engine\<close>

text \<open>
  Modelled from the spec: the rule engine (the classification the packet handlers of
  \<^verbatim>\<open>filter_subroutines.c\<close> perform) is not among the source files. The definitions
  follow sections 3 and 4.2 of the specification: a rule is a match predicate over the
  packet's attributes with an action; a rule set is an ordered sequence of rules;
  classification is a linear ordered scan that applies the first matching rule's action
  and the configured default action when no rule matches, the default being ACCEPT. The
  specification fixes no language for predicates, so a predicate is any function of the
  packet.
\<close>

datatype action = ACCEPT | DROP | MIRROR

datatype direction = Inbound | Outbound

text \<open>Modelled from the spec: the packet descriptor of section 3, with the attributes a
  predicate may inspect (direction, adapter, addresses, ports, protocol), the length and
  the arrival timestamp.\<close>

record packet_descriptor =
  pktDirection :: direction
  pktAdapter :: nat
  pktLength :: nat
  srcAddress :: nat
  dstAddress :: nat
  srcPort :: nat
  dstPort :: nat
  protocol :: nat
  arrival :: nat

text \<open>Modelled from the spec: a rule is a match predicate and an action (section 3).\<close>

record rule =
  predicate :: "packet_descriptor \<Rightarrow> bool"
  ruleAction :: action

type_synonym rule_set = "rule list"

text \<open>Modelled from the spec: the engine holds the active snapshot and the configured
  default action, ACCEPT unless configured otherwise; \<open>publish\<close> swaps the snapshot and
  \<open>currentSnapshot\<close> reads it (section 4.2).\<close>

record rule_engine =
  activeSnapshot :: rule_set
  defaultAction :: action

definition initial_engine :: rule_engine where
  "initial_engine = \<lparr>activeSnapshot = [], defaultAction = ACCEPT\<rparr>"

definition publish :: "rule_set \<Rightarrow> rule_engine \<Rightarrow> rule_engine" where
  "publish newRuleSet e = e\<lparr>activeSnapshot := newRuleSet\<rparr>"

definition currentSnapshot :: "rule_engine \<Rightarrow> rule_set" where
  "currentSnapshot e = activeSnapshot e"

text \<open>Modelled from the spec: the linear ordered scan of section 4.2. The first rule
  whose predicate holds of the packet decides; past the last rule the default action
  applies.\<close>

fun scan :: "action \<Rightarrow> rule_set \<Rightarrow> packet_descriptor \<Rightarrow> action" where
  "scan dflt [] p = dflt"
| "scan dflt (r # rs) p = (if predicate r p then ruleAction r else scan dflt rs p)"

text \<open>Modelled from the spec: one classification reads the current snapshot once and
  scans it with the engine's default action.\<close>

definition classify :: "rule_engine \<Rightarrow> packet_descriptor \<Rightarrow> action" where
  "classify e p = scan (defaultAction e) (currentSnapshot e) p"

text \<open>A rule set with overlapping predicates: the first and the third rule both match a
  packet to port 80, the second matches every packet.\<close>

definition overlapping_rules :: rule_set where
  "overlapping_rules =
     [\<lparr>predicate = (\<lambda>p. dstPort p = 80), ruleAction = DROP\<rparr>,
      \<lparr>predicate = (\<lambda>p. True), ruleAction = ACCEPT\<rparr>,
      \<lparr>predicate = (\<lambda>p. dstPort p = 80), ruleAction = MIRROR\<rparr>]"

definition port_rules :: rule_set where
  "port_rules = [\<lparr>predicate = (\<lambda>p. dstPort p = 80), ruleAction = DROP\<rparr>]"

definition packet_to :: "nat \<Rightarrow> packet_descriptor" where
  "packet_to port =
     \<lparr>pktDirection = Inbound, pktAdapter = 0, pktLength = 60, srcAddress = 1,
      dstAddress = 2, srcPort = 40000, dstPort = port, protocol = 6, arrival = 0\<rparr>"

section \<open>Properties of DriverEntry\<close>

lemmas kernel_defs =
  NdisGetVersion_def NdisAllocateSpinLock_def NdisFreeSpinLock_def InitializeListHead_def
  NdisFRegisterFilterDriver_def NdisFDeregisterFilterDriver_def IoCreateDevice_def
  IoDeleteDevice_def IoCreateSymbolicLink_def IoDeleteSymbolicLink_def InitRingBuffer_def
  FreeRingBuffer_def called_def set_DriverUnload_def set_DO_DIRECT_IO_def
  set_MajorFunction_def

lemmas entry_defs =
  DriverEntry_def DriverEntry_device_def DriverEntry_link_def DriverEntry_ring_def

lemmas env_defs = env_ndis_610_def env_all_ok_def env_ring_fail_def

lemma unsupported_revision_fails: "\<not> NT_SUCCESS NDIS_STATUS_UNSUPPORTED_REVISION"
  by (simp add: NT_SUCCESS_def NDIS_STATUS_UNSUPPORTED_REVISION_def)

lemma status_success_succeeds: "NT_SUCCESS 0"
  by (simp add: NT_SUCCESS_def)

lemma insufficient_resources_fails: "\<not> NT_SUCCESS 0xC000009A"
  by (simp add: NT_SUCCESS_def)

text \<open>The status \<open>DriverEntry\<close> returns is a success only when the version check and
  all four fallible calls succeeded.\<close>

lemma DriverEntry_success_iff:
  "NT_SUCCESS (fst (DriverEntry env s)) \<longleftrightarrow>
     \<not> env_NdisGetVersion env < NDIS_RUNTIME_VERSION_620 \<and>
     NT_SUCCESS (env_NdisFRegisterFilterDriver env) \<and>
     NT_SUCCESS (env_IoCreateDevice env) \<and>
     NT_SUCCESS (env_IoCreateSymbolicLink env) \<and>
     NT_SUCCESS (env_InitRingBuffer env)"
  by (simp add: entry_defs kernel_defs Let_def unsupported_revision_fails)

text \<open>
  C9. When \<^verbatim>\<open>NdisGetVersion\<close> reports a version below \<^verbatim>\<open>NDIS_RUNTIME_VERSION_620\<close>
  (an unsigned comparison), \<open>DriverEntry\<close> returns \<^verbatim>\<open>NDIS_STATUS_UNSUPPORTED_REVISION\<close>
  and its only call is \<^verbatim>\<open>NdisGetVersion\<close>: no filter driver is registered, no device
  or symbolic link is created, no spin lock is allocated and no ring buffer is
  initialised. Otherwise the global \<open>ndisVersion\<close> ends as exactly
  \<^verbatim>\<open>NDIS_RUNTIME_VERSION_620\<close>, whatever higher version was reported and however the
  rest of the initialisation goes.
\<close>

theorem DriverEntry_version_gate:
  "(env_NdisGetVersion env < NDIS_RUNTIME_VERSION_620 \<longrightarrow>
      fst (DriverEntry env s) = NDIS_STATUS_UNSUPPORTED_REVISION \<and>
      calls (snd (DriverEntry env s)) = calls s @ [Call_NdisGetVersion] \<and>
      filterDriverHandle (snd (DriverEntry env s)) = filterDriverHandle s \<and>
      winptablesCommunicationDevice (snd (DriverEntry env s)) =
        winptablesCommunicationDevice s \<and>
      symbolicLink (snd (DriverEntry env s)) = symbolicLink s \<and>
      filterListLock (snd (DriverEntry env s)) = filterListLock s \<and>
      commRingBuffer (snd (DriverEntry env s)) = commRingBuffer s) \<and>
   (\<not> env_NdisGetVersion env < NDIS_RUNTIME_VERSION_620 \<longrightarrow>
      ndisVersion (snd (DriverEntry env s)) = NDIS_RUNTIME_VERSION_620)"
proof (cases "env_NdisGetVersion env < NDIS_RUNTIME_VERSION_620")
  case True
  then show ?thesis
    by (simp add: DriverEntry_def NdisGetVersion_def called_def)
next
  case False
  then show ?thesis
    by (simp add: entry_defs kernel_defs Let_def)
qed

theorem DriverEntry_version_gate_witness:
  "fst (DriverEntry env_ndis_610 initial_state) = NDIS_STATUS_UNSUPPORTED_REVISION \<and>
   calls (snd (DriverEntry env_ndis_610 initial_state)) = [Call_NdisGetVersion] \<and>
   filterDriverHandle (snd (DriverEntry env_ndis_610 initial_state)) = None \<and>
   env_NdisGetVersion env_all_ok = 0x0006001E \<and>
   ndisVersion (snd (DriverEntry env_all_ok initial_state)) = 0x00060014"
  using DriverEntry_version_gate [of env_ndis_610 initial_state]
    DriverEntry_version_gate [of env_all_ok initial_state]
  by (simp add: env_defs initial_state_def NDIS_RUNTIME_VERSION_620_def)

text \<open>
  C6. Every \<^verbatim>\<open>InitRingBuffer\<close> call that \<open>DriverEntry\<close> makes passes the size exponent
  20; when \<open>DriverEntry\<close> returns a success status the call was made and succeeded, so
  \<open>commRingBuffer\<close> is initialised with exponent 20, and the size that exponent
  stands for, \<^verbatim>\<open>1 << 20\<close> bytes, is 1048576 bytes, that is 1 MiB.
\<close>

theorem DriverEntry_ring_buffer_one_MiB:
  "(\<forall>e. Call_InitRingBuffer e \<in> set (calls (snd (DriverEntry env s))) \<longrightarrow>
        e = 20 \<or> Call_InitRingBuffer e \<in> set (calls s)) \<and>
   (NT_SUCCESS (fst (DriverEntry env s)) \<longrightarrow>
      commRingBuffer (snd (DriverEntry env s)) = Some 20 \<and>
      Call_InitRingBuffer 20 \<in> set (calls (snd (DriverEntry env s)))) \<and>
   ring_buffer_bytes 20 = 1048576 \<and> ring_buffer_bytes 20 = 1024 * 1024"
proof -
  have made: "\<forall>e. Call_InitRingBuffer e \<in> set (calls (snd (DriverEntry env s))) \<longrightarrow>
      e = 20 \<or> Call_InitRingBuffer e \<in> set (calls s)"
    by (simp add: entry_defs kernel_defs Let_def)
  have ok: "NT_SUCCESS (fst (DriverEntry env s)) \<longrightarrow>
      commRingBuffer (snd (DriverEntry env s)) = Some 20 \<and>
      Call_InitRingBuffer 20 \<in> set (calls (snd (DriverEntry env s)))"
    by (simp add: entry_defs kernel_defs Let_def unsupported_revision_fails)
  have size: "ring_buffer_bytes 20 = 1048576"
    by (simp add: ring_buffer_bytes_def)
  from made ok size show ?thesis by simp
qed

theorem DriverEntry_ring_buffer_one_MiB_witness:
  "NT_SUCCESS (fst (DriverEntry env_all_ok initial_state)) \<and>
   commRingBuffer (snd (DriverEntry env_all_ok initial_state)) = Some 20 \<and>
   ring_buffer_bytes 20 = 1048576"
proof -
  have "NT_SUCCESS (fst (DriverEntry env_all_ok initial_state))"
    by (simp add: DriverEntry_success_iff env_all_ok_def NDIS_RUNTIME_VERSION_620_def
        status_success_succeeds)
  with DriverEntry_ring_buffer_one_MiB [of env_all_ok initial_state] show ?thesis
    by simp
qed

subsection \<open>Cleanup on failure\<close>

text \<open>Started from the initial state, a failing \<open>DriverEntry\<close> leaves no spin lock, no
  registration, no device and no ring buffer behind.\<close>

lemma DriverEntry_failure_releases:
  assumes "\<not> NT_SUCCESS (fst (DriverEntry env initial_state))"
  shows "\<not> filterListLock (snd (DriverEntry env initial_state)) \<and>
         filterDriverHandle (snd (DriverEntry env initial_state)) = None \<and>
         winptablesCommunicationDevice (snd (DriverEntry env initial_state)) = None \<and>
         commRingBuffer (snd (DriverEntry env initial_state)) = None"
  using assms
  by (simp add: entry_defs kernel_defs Let_def initial_state_def split: if_splits)

text \<open>The symbolic link is another matter: it outlives a failing \<open>DriverEntry\<close> exactly
  when everything up to and including \<^verbatim>\<open>IoCreateSymbolicLink\<close> succeeded and
  \<^verbatim>\<open>InitRingBuffer\<close> failed. That branch (lines 190 to 196) frees the lock, the
  registration, the device and the ring buffer, and never calls
  \<^verbatim>\<open>IoDeleteSymbolicLink\<close>.\<close>

lemma DriverEntry_link_left_iff:
  "symbolicLink (snd (DriverEntry env initial_state)) \<and>
   \<not> NT_SUCCESS (fst (DriverEntry env initial_state)) \<longleftrightarrow>
     \<not> env_NdisGetVersion env < NDIS_RUNTIME_VERSION_620 \<and>
     NT_SUCCESS (env_NdisFRegisterFilterDriver env) \<and>
     NT_SUCCESS (env_IoCreateDevice env) \<and>
     NT_SUCCESS (env_IoCreateSymbolicLink env) \<and>
     \<not> NT_SUCCESS (env_InitRingBuffer env)"
  by (auto simp add: entry_defs kernel_defs Let_def initial_state_def
      unsupported_revision_fails)

lemma DriverEntry_never_deletes_link:
  "Call_IoDeleteSymbolicLink \<notin> set (calls (snd (DriverEntry env initial_state)))"
  by (simp add: entry_defs kernel_defs Let_def initial_state_def)

text \<open>\<open>DriverUnload\<close>, the routine that releases what a successful \<open>DriverEntry\<close>
  acquired, does delete the link.\<close>

lemma DriverUnload_deletes_link:
  "\<not> symbolicLink (DriverUnload s) \<and>
   Call_IoDeleteSymbolicLink \<in> set (calls (DriverUnload s))"
  by (simp add: DriverUnload_def kernel_defs)

text \<open>
  C10. The claim fails on the code when \<^verbatim>\<open>InitRingBuffer\<close> fails after the three
  earlier calls succeeded: \<open>DriverEntry\<close> returns the failure status
  \<^verbatim>\<open>0xC000009A\<close>, the spin lock, the registration and the device are released, and
  the symbolic link it created is still there, \<^verbatim>\<open>IoDeleteSymbolicLink\<close> never having
  been called.
\<close>

theorem DriverEntry_ring_failure_leaves_link:
  "fst (DriverEntry env_ring_fail initial_state) = 0xC000009A \<and>
   \<not> NT_SUCCESS (fst (DriverEntry env_ring_fail initial_state)) \<and>
   Call_IoCreateSymbolicLink \<in> set (calls (snd (DriverEntry env_ring_fail initial_state))) \<and>
   symbolicLink (snd (DriverEntry env_ring_fail initial_state)) \<and>
   Call_IoDeleteSymbolicLink \<notin> set (calls (snd (DriverEntry env_ring_fail initial_state))) \<and>
   \<not> filterListLock (snd (DriverEntry env_ring_fail initial_state)) \<and>
   filterDriverHandle (snd (DriverEntry env_ring_fail initial_state)) = None \<and>
   winptablesCommunicationDevice (snd (DriverEntry env_ring_fail initial_state)) = None"
  by (simp add: entry_defs kernel_defs Let_def env_ring_fail_def initial_state_def
      NT_SUCCESS_def NDIS_RUNTIME_VERSION_620_def)

section \<open>Properties of the rule engine\<close>

lemma scan_no_match: "\<forall>q \<in> set rs. \<not> predicate q p \<Longrightarrow> scan dflt rs p = dflt"
  by (induction rs) simp_all

lemma scan_skips_prefix:
  "\<forall>q \<in> set pre. \<not> predicate q p \<Longrightarrow> scan dflt (pre @ rs) p = scan dflt rs p"
  by (induction pre) simp_all

text \<open>
  C2. Classification scans the rule set in order and applies the action of the first
  rule whose predicate matches the packet: whenever the active rule set splits as
  \<open>pre @ r # post\<close> with no rule of \<open>pre\<close> matching and \<open>r\<close> matching, the result is the
  action of \<open>r\<close>, whatever the rules of \<open>post\<close> are. When no rule matches, the result is
  the engine's configured default action, which is ACCEPT for an engine that was
  initialised and then had any rule set published.
\<close>

theorem classify_first_match_wins:
  "(currentSnapshot e = pre @ r # post \<and> (\<forall>q \<in> set pre. \<not> predicate q p) \<and> predicate r p
      \<longrightarrow> classify e p = ruleAction r) \<and>
   ((\<forall>q \<in> set (currentSnapshot e). \<not> predicate q p) \<longrightarrow> classify e p = defaultAction e) \<and>
   defaultAction (publish rs initial_engine) = ACCEPT"
proof -
  have first: "classify e p = ruleAction r"
    if "currentSnapshot e = pre @ r # post" "\<forall>q \<in> set pre. \<not> predicate q p" "predicate r p"
  proof -
    have "classify e p = scan (defaultAction e) (r # post) p"
      using that(1,2) by (simp add: classify_def scan_skips_prefix)
    with that(3) show ?thesis by simp
  qed
  have none: "classify e p = defaultAction e"
    if "\<forall>q \<in> set (currentSnapshot e). \<not> predicate q p"
    using that by (simp add: classify_def scan_no_match)
  have dflt: "defaultAction (publish rs initial_engine) = ACCEPT"
    by (simp add: publish_def initial_engine_def)
  from first none dflt show ?thesis by blast
qed

theorem classify_first_match_wins_witness:
  "classify (publish overlapping_rules initial_engine) (packet_to 80) = DROP \<and>
   classify (publish port_rules initial_engine) (packet_to 443) = ACCEPT"
  using classify_first_match_wins
      [of "publish overlapping_rules initial_engine" "[]" "hd overlapping_rules"
          "tl overlapping_rules" "packet_to 80" overlapping_rules]
    classify_first_match_wins
      [of "publish port_rules initial_engine" "[]" "hd port_rules" "[]" "packet_to 443"
          port_rules]
  by (simp add: publish_def currentSnapshot_def initial_engine_def overlapping_rules_def
      port_rules_def packet_to_def)

end
